theory Spec2Isabelle
  imports Main "HOL-Library.Word" "HOL-Library.Sublist" "HOL-Library.Char_ord"
    "HOL-Library.List_Lexorder" "HOL-Library.Multiset"
begin

unbundle bit_operations_syntax

section \<open>Strings\<close>

text \<open>
  A Go string is a sequence of bytes; so is a \<^typ>\<open>string\<close> here.  The functions of
  package \<^verbatim>\<open>strings\<close> that the engine calls are written out as the standard library
  defines them.  \<^verbatim>\<open>strings.ToLower\<close> is modelled on ASCII, where it maps the
  bytes \<^verbatim>\<open>'A'..'Z'\<close> to \<^verbatim>\<open>'a'..'z'\<close> and leaves every other byte alone; this
  is exact for every string of ASCII bytes (a query name, as the DNS library presents it,
  is one: it escapes the other bytes).
\<close>

definition lowerByte :: "char \<Rightarrow> char" where
  "lowerByte c =
     (let n = (of_char c :: nat) in if 65 \<le> n \<and> n \<le> 90 then char_of (n + 32) else c)"

definition ToLower :: "string \<Rightarrow> string" where
  "ToLower s = map lowerByte s"

definition HasPrefix :: "string \<Rightarrow> string \<Rightarrow> bool" where
  "HasPrefix s pre = (length pre \<le> length s \<and> take (length pre) s = pre)"

definition HasSuffix :: "string \<Rightarrow> string \<Rightarrow> bool" where
  "HasSuffix s suf = (length suf \<le> length s \<and> drop (length s - length suf) s = suf)"

definition TrimSuffix :: "string \<Rightarrow> string \<Rightarrow> string" where
  "TrimSuffix s suf = (if HasSuffix s suf then take (length s - length suf) s else s)"

section \<open>The resolution engine: matching\<close>

text \<open>
  \<^verbatim>\<open>Match\<close>: both names are lower-cased after one trailing dot is removed; equal names
  match; a rule that starts with \<^verbatim>\<open>*\<close> matches when the query name ends with the rest of
  the rule (\<^verbatim>\<open>rule[1:]\<close>).
\<close>

definition Match :: "string \<Rightarrow> string \<Rightarrow> bool" where
  "Match qname0 rule0 =
     (let qname = ToLower (TrimSuffix qname0 ''.'');
          rule = ToLower (TrimSuffix rule0 ''.'')
      in if qname = rule then True
         else if HasPrefix rule ''*'' then
           (let suffix = drop 1 rule in HasSuffix qname suffix)
         else False)"

section \<open>The resolution engine: data\<close>

text \<open>
  \<^verbatim>\<open>conf.Record\<close> and \<^verbatim>\<open>conf.Domain\<close>.  Go's \<^verbatim>\<open>int\<close> is taken at its usual width
  of 64 bits.  The domain's own name is the field \<open>DomainName\<close> (record fields share one
  name space here).
\<close>

record Record =
  Name :: string
  Type :: string
  Value :: string
  TTL :: "64 word"

record Domain =
  DomainName :: string
  Records :: "Record list"

text \<open>
  \<^verbatim>\<open>conf.Config\<close>, with the two fields the query path reads.  \<^verbatim>\<open>GetDomains\<close> and
  \<^verbatim>\<open>GetUpstream\<close> return copies, which are the same values.
\<close>

record Config =
  Upstream :: "string list"
  Domains :: "Domain list"

definition GetUpstream :: "Config \<Rightarrow> string list" where
  "GetUpstream c = Upstream c"

definition GetDomains :: "Config \<Rightarrow> Domain list" where
  "GetDomains c = map (\<lambda>domain. \<lparr>DomainName = DomainName domain, Records = [] @ Records domain\<rparr>) (Domains c)"

text \<open>
  The messages of the DNS library: a question, a resource record header, the four records
  the engine builds (any other record, as an upstream may send it, is \<open>dns_Other\<close>), and
  the message with its header bits and sections (\<open>MsgId\<close> is the header's \<^verbatim>\<open>Id\<close>).
\<close>

type_synonym IP = "8 word list"

record Question =
  QName :: string
  Qtype :: "16 word"
  Qclass :: "16 word"

record RR_Header =
  HdrName :: string
  Rrtype :: "16 word"
  Class :: "16 word"
  Ttl :: "32 word"

datatype RR =
    dns_A RR_Header IP
  | dns_AAAA RR_Header IP
  | dns_CNAME RR_Header string
  | dns_TXT RR_Header "string list"
  | dns_Other RR_Header "8 word list"

record Msg =
  MsgId :: "16 word"
  Response :: bool
  Opcode :: int
  Authoritative :: bool
  Truncated :: bool
  RecursionDesired :: bool
  RecursionAvailable :: bool
  Zero :: bool
  AuthenticatedData :: bool
  CheckingDisabled :: bool
  Rcode :: int
  Question :: "Question list"
  Answer :: "RR list"
  Ns :: "RR list"
  Extra :: "RR list"

definition TypeA :: "16 word" where "TypeA = 1"
definition TypeCNAME :: "16 word" where "TypeCNAME = 5"
definition TypeTXT :: "16 word" where "TypeTXT = 16"
definition TypeAAAA :: "16 word" where "TypeAAAA = 28"
definition ClassINET :: "16 word" where "ClassINET = 1"
definition OpcodeQuery :: int where "OpcodeQuery = 0"
definition RcodeSuccess :: int where "RcodeSuccess = 0"
definition RcodeServerFailure :: int where "RcodeServerFailure = 2"
definition RcodeNameError :: int where "RcodeNameError = 3"

text \<open>\<^verbatim>\<open>new(dns.Msg)\<close>: every field at its zero value.\<close>

definition newMsg :: Msg where
  "newMsg = \<lparr>MsgId = 0, Response = False, Opcode = 0, Authoritative = False, Truncated = False,
     RecursionDesired = False, RecursionAvailable = False, Zero = False,
     AuthenticatedData = False, CheckingDisabled = False, Rcode = 0,
     Question = [], Answer = [], Ns = [], Extra = []\<rparr>"

text \<open>
  \<^verbatim>\<open>SetReply\<close> and \<^verbatim>\<open>SetRcode\<close> of the DNS library: the reply takes the request's id
  and opcode, for a query also its RD and CD bits, the success code and the request's first
  question; the other fields of the reply stay as they are.
\<close>

definition SetReply :: "Msg \<Rightarrow> Msg \<Rightarrow> Msg" where
  "SetReply m request =
     (let m1 = m\<lparr>MsgId := MsgId request, Response := True, Opcode := Opcode request\<rparr>;
          m2 = (if Opcode m1 = OpcodeQuery
                then m1\<lparr>RecursionDesired := RecursionDesired request,
                        CheckingDisabled := CheckingDisabled request\<rparr>
                else m1);
          m3 = m2\<lparr>Rcode := RcodeSuccess\<rparr>
      in case Question request of
           [] \<Rightarrow> m3
         | q # _ \<Rightarrow> m3\<lparr>Question := [q]\<rparr>)"

definition SetRcode :: "Msg \<Rightarrow> Msg \<Rightarrow> int \<Rightarrow> Msg" where
  "SetRcode m request rcode = (SetReply m request)\<lparr>Rcode := rcode\<rparr>"

text \<open>\<^verbatim>\<open>Msg.Copy\<close> is a deep copy: the same value.\<close>

definition Copy :: "Msg \<Rightarrow> Msg" where
  "Copy m = m"

text \<open>
  \<^verbatim>\<open>net.IP\<close> is a byte slice.  \<^verbatim>\<open>To4\<close> and \<^verbatim>\<open>To16\<close> are the standard
  library's: \<open>None\<close> is the nil slice.  \<^verbatim>\<open>net.ParseIP\<close> itself is a parameter of the
  request handler (\<open>parseIP\<close> below): a function from the text to the address, \<open>None\<close>
  when the text is no IP literal.
\<close>

definition v4InV6Prefix :: IP where
  "v4InV6Prefix = [0, 0, 0, 0, 0, 0, 0, 0, 0, 0, 0xff, 0xff]"

definition To4 :: "IP \<Rightarrow> IP option" where
  "To4 ip =
     (if length ip = 4 then Some ip
      else if length ip = 16 \<and> list_all (\<lambda>b. b = 0) (take 10 ip)
              \<and> ip ! 10 = 0xff \<and> ip ! 11 = 0xff
      then Some (take 4 (drop 12 ip))
      else None)"

definition To16 :: "IP \<Rightarrow> IP option" where
  "To16 ip =
     (if length ip = 4 then Some (v4InV6Prefix @ ip)
      else if length ip = 16 then Some ip
      else None)"

section \<open>The resolution engine: lookup\<close>

text \<open>
  The type switch of the first loop of \<^verbatim>\<open>FindRecord\<close> (four record types) and of its
  second loop (two record types).
\<close>

definition exactSwitch :: "string \<Rightarrow> 16 word \<Rightarrow> bool" where
  "exactSwitch ty qtype =
     (if ty = ''A'' then qtype = TypeA
      else if ty = ''AAAA'' then qtype = TypeAAAA
      else if ty = ''CNAME'' then qtype = TypeCNAME
      else if ty = ''TXT'' then qtype = TypeTXT
      else False)"

definition wildcardSwitch :: "string \<Rightarrow> 16 word \<Rightarrow> bool" where
  "wildcardSwitch ty qtype =
     (if ty = ''A'' then qtype = TypeA
      else if ty = ''AAAA'' then qtype = TypeAAAA
      else False)"

text \<open>The first loop over one domain's records: the exact names.\<close>

fun exactLoop :: "Record list \<Rightarrow> string \<Rightarrow> 16 word \<Rightarrow> Record option" where
  "exactLoop [] qname qtype = None"
| "exactLoop (record # rest) qname qtype =
     (let recordName = ToLower (TrimSuffix (Name record) ''.'');
          queryName = ToLower (TrimSuffix qname ''.'')
      in if recordName = queryName \<and> exactSwitch (Type record) qtype then Some record
         else exactLoop rest qname qtype)"

text \<open>The second loop over the same domain's records: the wildcard names.\<close>

fun wildcardLoop :: "Record list \<Rightarrow> string \<Rightarrow> 16 word \<Rightarrow> Record option" where
  "wildcardLoop [] qname qtype = None"
| "wildcardLoop (record # rest) qname qtype =
     (if HasPrefix (Name record) ''*'' \<and> Match qname (Name record)
         \<and> wildcardSwitch (Type record) qtype
      then Some record
      else wildcardLoop rest qname qtype)"

text \<open>The outer loop over the domains: both loops run on a domain before the next one.\<close>

fun domainLoop :: "Domain list \<Rightarrow> string \<Rightarrow> 16 word \<Rightarrow> Record option" where
  "domainLoop [] qname qtype = None"
| "domainLoop (domainConfig # rest) qname qtype =
     (case exactLoop (Records domainConfig) qname qtype of
        Some record \<Rightarrow> Some record
      | None \<Rightarrow>
          (case wildcardLoop (Records domainConfig) qname qtype of
             Some record \<Rightarrow> Some record
           | None \<Rightarrow> domainLoop rest qname qtype))"

definition FindRecord :: "Config \<Rightarrow> string \<Rightarrow> 16 word \<Rightarrow> Record option" where
  "FindRecord conf qname qtype = domainLoop (GetDomains conf) qname qtype"

definition IsDomainConfigured :: "Config \<Rightarrow> string \<Rightarrow> bool" where
  "IsDomainConfigured conf qname =
     list_ex (\<lambda>domainConfig. list_ex (\<lambda>record. Match qname (Name record)) (Records domainConfig))
       (GetDomains conf)"

section \<open>The resolution engine: forwarding and the request handler\<close>

text \<open>
  The network is a parameter: \<open>exchange i upstream msg\<close> is what \<^verbatim>\<open>client.Exchange\<close>
  returns at the \<open>i\<close>-th attempt of one call of \<^verbatim>\<open>ForwardRequest\<close>, the response
  (\<open>None\<close> for nil) and the error (\<open>None\<close> for nil).  The loop also returns the
  exchanges it made, in order: the upstream and the message sent to it.
\<close>

type_synonym exchange = "nat \<Rightarrow> string \<Rightarrow> Msg \<Rightarrow> Msg option \<times> string option"

fun forwardLoop ::
  "exchange \<Rightarrow> nat \<Rightarrow> string list \<Rightarrow> Msg \<Rightarrow> Msg option \<times> string option \<times> (string \<times> Msg) list"
where
  "forwardLoop exchange i [] req =
     (None, Some ''failed to get a valid response from any of the configured upstream servers'', [])"
| "forwardLoop exchange i (upstream # rest) req =
     (let reqCopy = Copy req;
          (resp, err) = exchange i upstream reqCopy
      in if err \<noteq> None \<or> resp = None then
           (case forwardLoop exchange (Suc i) rest req of
              (r, e, sent) \<Rightarrow> (r, e, (upstream, reqCopy) # sent))
         else (resp, None, [(upstream, reqCopy)]))"

definition ForwardRequest ::
  "exchange \<Rightarrow> Config \<Rightarrow> Msg \<Rightarrow> Msg option \<times> string option \<times> (string \<times> Msg) list"
where
  "ForwardRequest exchange conf req = forwardLoop exchange 0 (GetUpstream conf) req"

text \<open>
  The switch of \<^verbatim>\<open>HandleRequest\<close> on the type of the record found: the resource record
  it appends to the answer, \<open>None\<close> when it appends none (\<^verbatim>\<open>foundRecord\<close> stays
  false).  \<^verbatim>\<open>uint32(record.TTL)\<close> keeps the low 32 bits.
\<close>

definition answerHeader :: "string \<Rightarrow> 16 word \<Rightarrow> Record \<Rightarrow> RR_Header" where
  "answerHeader qname rrtype record =
     \<lparr>HdrName = qname, Rrtype = rrtype, Class = ClassINET, Ttl = ucast (TTL record)\<rparr>"

definition synthesize :: "(string \<Rightarrow> IP option) \<Rightarrow> Record \<Rightarrow> string \<Rightarrow> 16 word \<Rightarrow> RR option" where
  "synthesize parseIP record qname qtype =
     (if Type record = ''A'' then
        (if qtype = TypeA then
           (case parseIP (Value record) of
              None \<Rightarrow> None
            | Some ip \<Rightarrow>
                (case To4 ip of
                   None \<Rightarrow> None
                 | Some ip4 \<Rightarrow> Some (dns_A (answerHeader qname TypeA record) ip4)))
         else None)
      else if Type record = ''AAAA'' then
        (if qtype = TypeAAAA then
           (case parseIP (Value record) of
              None \<Rightarrow> None
            | Some ip \<Rightarrow>
                (case To16 ip of
                   None \<Rightarrow> None
                 | Some ip16 \<Rightarrow> Some (dns_AAAA (answerHeader qname TypeAAAA record) ip16)))
         else None)
      else if Type record = ''CNAME'' then
        (if qtype = TypeCNAME then
           (let cnameValue = (if \<not> HasSuffix (Value record) ''.'' then Value record @ ''.''
                              else Value record)
            in Some (dns_CNAME (answerHeader qname TypeCNAME record) cnameValue))
         else None)
      else if Type record = ''TXT'' then
        (if qtype = TypeTXT then Some (dns_TXT (answerHeader qname TypeTXT record) [Value record])
         else None)
      else None)"

text \<open>
  \<^verbatim>\<open>HandleRequest\<close>: the message it writes, and the exchanges it made with the
  upstreams.
\<close>

definition HandleRequest ::
  "(string \<Rightarrow> IP option) \<Rightarrow> exchange \<Rightarrow> Config \<Rightarrow> Msg \<Rightarrow> Msg \<times> (string \<times> Msg) list"
where
  "HandleRequest parseIP exchange conf req =
     (let m = (SetReply newMsg req)\<lparr>RecursionAvailable := True\<rparr>
      in case Question req of
           [] \<Rightarrow> (m, [])
         | question # _ \<Rightarrow>
             (let qname = QName question; qtype = Qtype question
              in if IsDomainConfigured conf qname then
                   (case (case FindRecord conf qname qtype of
                            None \<Rightarrow> None
                          | Some record \<Rightarrow> synthesize parseIP record qname qtype) of
                      Some rr \<Rightarrow> (m\<lparr>Answer := Answer m @ [rr]\<rparr>, [])
                    | None \<Rightarrow> (SetRcode m req RcodeSuccess, []))
                 else
                   (case ForwardRequest exchange conf req of
                      (upstreamResp, err, sent) \<Rightarrow>
                        (case upstreamResp of
                           None \<Rightarrow>
                             ((SetRcode m req RcodeServerFailure)\<lparr>RecursionAvailable := False\<rparr>, sent)
                         | Some r \<Rightarrow>
                             if err \<noteq> None then
                               ((SetRcode m req RcodeServerFailure)\<lparr>RecursionAvailable := False\<rparr>, sent)
                             else
                               (m\<lparr>Answer := Answer r, Ns := Ns r, Extra := Extra r,
                                  Rcode := Rcode r\<rparr>, sent)))))"

section \<open>The record store\<close>

text \<open>
  The errors of the store, by what their messages say: the empty domain name, the domain
  (or, with a record name, the record of the domain) that does not exist, the record that
  exists already (domain, name, type), and the step of \<^verbatim>\<open>updateDomainsNode\<close> that
  failed.
\<close>

datatype persistStep = MkdirAll | OpenFile | Encode | ReadInConfig

datatype error =
    ValidationError
  | NotFoundError string "string option"
  | ConflictError string string string
  | PersistenceError persistStep

text \<open>
  The state of \<^verbatim>\<open>ViperYAMLManager\<close>: the domain map, and the value last given to
  \<^verbatim>\<open>viper.Set("domains", ...)\<close> (the slice of the map's values, kept as the map it was
  built from: Go does not specify the order of a map's iteration).  The file system is a
  parameter: which steps of the write fail.
\<close>

record ViperYAMLManager =
  domainMap :: "string \<rightharpoonup> Domain"
  viperDomains :: "string \<rightharpoonup> Domain"

record FileSystem =
  WriteConfig_fails :: bool
  SafeWriteConfig_fails :: bool
  MkdirAll_fails :: bool
  OpenFile_fails :: bool
  Encode_fails :: bool
  ReadInConfig_fails :: bool

definition readInConfig :: "FileSystem \<Rightarrow> error option" where
  "readInConfig fs = (if ReadInConfig_fails fs then Some (PersistenceError ReadInConfig) else None)"

definition writeBack :: "FileSystem \<Rightarrow> error option" where
  "writeBack fs =
     (if WriteConfig_fails fs then
        (if SafeWriteConfig_fails fs then
           (if MkdirAll_fails fs then Some (PersistenceError MkdirAll)
            else if OpenFile_fails fs then Some (PersistenceError OpenFile)
            else if Encode_fails fs then Some (PersistenceError Encode)
            else readInConfig fs)
         else readInConfig fs)
      else readInConfig fs)"

definition updateDomainsNode :: "FileSystem \<Rightarrow> ViperYAMLManager \<Rightarrow> error option \<times> ViperYAMLManager" where
  "updateDomainsNode fs m = (writeBack fs, m\<lparr>viperDomains := domainMap m\<rparr>)"

definition AddOrUpdateDomain ::
  "FileSystem \<Rightarrow> ViperYAMLManager \<Rightarrow> Domain \<Rightarrow> error option \<times> ViperYAMLManager" where
  "AddOrUpdateDomain fs m domain =
     (if DomainName domain = [] then (Some ValidationError, m)
      else updateDomainsNode fs (m\<lparr>domainMap := (domainMap m)(DomainName domain \<mapsto> domain)\<rparr>))"

definition DeleteDomain ::
  "FileSystem \<Rightarrow> ViperYAMLManager \<Rightarrow> string \<Rightarrow> error option \<times> ViperYAMLManager" where
  "DeleteDomain fs m domainName =
     (case domainMap m domainName of
        None \<Rightarrow> (Some (NotFoundError domainName None), m)
      | Some _ \<Rightarrow> updateDomainsNode fs (m\<lparr>domainMap := (domainMap m)(domainName := None)\<rparr>))"

definition AddRecord ::
  "FileSystem \<Rightarrow> ViperYAMLManager \<Rightarrow> string \<Rightarrow> Record \<Rightarrow> error option \<times> ViperYAMLManager" where
  "AddRecord fs m domainName record =
     (case domainMap m domainName of
        None \<Rightarrow> (Some (NotFoundError domainName None), m)
      | Some domain \<Rightarrow>
          if list_ex (\<lambda>r. Name r = Name record \<and> Type r = Type record) (Records domain)
          then (Some (ConflictError domainName (Name record) (Type record)), m)
          else updateDomainsNode fs
                 (m\<lparr>domainMap := (domainMap m)
                      (domainName \<mapsto> domain\<lparr>Records := Records domain @ [record]\<rparr>)\<rparr>))"

text \<open>
  The loop of \<^verbatim>\<open>UpdateRecord\<close>: the first record of that name is overwritten and the
  loop stops; the flag says whether one was found.
\<close>

fun updateLoop :: "Record list \<Rightarrow> string \<Rightarrow> Record \<Rightarrow> Record list \<times> bool" where
  "updateLoop [] recordName newRecord = ([], False)"
| "updateLoop (r # rest) recordName newRecord =
     (if Name r = recordName then (newRecord # rest, True)
      else (case updateLoop rest recordName newRecord of
              (rest', found) \<Rightarrow> (r # rest', found)))"

definition UpdateRecord ::
  "FileSystem \<Rightarrow> ViperYAMLManager \<Rightarrow> string \<Rightarrow> string \<Rightarrow> Record \<Rightarrow> error option \<times> ViperYAMLManager" where
  "UpdateRecord fs m domainName recordName newRecord =
     (case domainMap m domainName of
        None \<Rightarrow> (Some (NotFoundError domainName None), m)
      | Some domain \<Rightarrow>
          (case updateLoop (Records domain) recordName newRecord of
             (records, found) \<Rightarrow>
               if \<not> found then (Some (NotFoundError domainName (Some recordName)), m)
               else updateDomainsNode fs
                      (m\<lparr>domainMap := (domainMap m)(domainName \<mapsto> domain\<lparr>Records := records\<rparr>)\<rparr>)))"

definition DeleteRecord ::
  "FileSystem \<Rightarrow> ViperYAMLManager \<Rightarrow> string \<Rightarrow> string \<Rightarrow> error option \<times> ViperYAMLManager" where
  "DeleteRecord fs m domainName recordName =
     (case domainMap m domainName of
        None \<Rightarrow> (Some (NotFoundError domainName None), m)
      | Some domain \<Rightarrow>
          (let newRecords = filter (\<lambda>r. Name r \<noteq> recordName) (Records domain);
               found = list_ex (\<lambda>r. \<not> Name r \<noteq> recordName) (Records domain)
           in if \<not> found then (Some (NotFoundError domainName (Some recordName)), m)
              else updateDomainsNode fs
                     (m\<lparr>domainMap := (domainMap m)(domainName \<mapsto> domain\<lparr>Records := newRecords\<rparr>)\<rparr>)))"

text \<open>
  \<^verbatim>\<open>ListDomainsWithPagination\<close>.  Go leaves two things open, and both are parameters:
  the order in which \<^verbatim>\<open>range\<close> visits the map (\<open>rangeOrder\<close>, the pairs of the map in
  the order visited) and the result of \<^verbatim>\<open>sort.Slice\<close>, which is not stable
  (\<open>sortSlice\<close>, given the comparison).  \<^verbatim>\<open>page\<close> and \<^verbatim>\<open>pageSize\<close> are Go
  \<^verbatim>\<open>int\<close>s: 64 bits, signed, and the arithmetic wraps.  A slice expression whose
  bounds are not \<open>0 \<le> low \<le> high \<le> cap\<close> panics.
\<close>

record DomainInfo =
  InfoName :: string
  RecordCount :: "64 word"

record DomainListResult =
  Total :: "64 word"
  ListedDomains :: "DomainInfo list"

datatype panic = SliceBoundsOutOfRange

definition lessByName :: "DomainInfo \<Rightarrow> DomainInfo \<Rightarrow> bool" where
  "lessByName a b = (ToLower (InfoName a) < ToLower (InfoName b))"

definition ListDomainsWithPagination ::
  "((DomainInfo \<Rightarrow> DomainInfo \<Rightarrow> bool) \<Rightarrow> DomainInfo list \<Rightarrow> DomainInfo list) \<Rightarrow>
   (string \<times> Domain) list \<Rightarrow> ViperYAMLManager \<Rightarrow> 64 word \<Rightarrow> 64 word \<Rightarrow>
   panic + (DomainListResult \<times> error option)"
where
  "ListDomainsWithPagination sortSlice rangeOrder m page0 pageSize0 =
     (let page = (if page0 <s 1 then 1 else page0);
          pageSize = (if pageSize0 <s 1 \<or> 100 <s pageSize0 then 20 else pageSize0);
          total = (of_nat (card (dom (domainMap m))) :: 64 word);
          domainInfos = sortSlice lessByName
            (map (\<lambda>(name, domain).
                    \<lparr>InfoName = name, RecordCount = of_nat (length (Records domain))\<rparr>)
               rangeOrder);
          len = (of_nat (length domainInfos) :: 64 word);
          start = (page - 1) * pageSize;
          endIdx = start + pageSize
      in if len \<le>s start then Inr (\<lparr>Total = total, ListedDomains = []\<rparr>, None)
         else
           (let endIdx' = (if len <s endIdx then len else endIdx)
            in if 0 \<le>s start \<and> start \<le>s endIdx' \<and> endIdx' \<le>s len
               then Inr (\<lparr>Total = total,
                           ListedDomains =
                             take (unat endIdx' - unat start) (drop (unat start) domainInfos)\<rparr>,
                         None)
               else Inl SliceBoundsOutOfRange))"

section \<open>The specification's wording, for comparison\<close>

text \<open>
  The specification normalises a name by lower-casing it and stripping one trailing dot,
  and words \<^verbatim>\<open>Match\<close> on the normalised names: equal names match; a rule that starts
  with \<^verbatim>\<open>*\<close> matches when the query name ends with what follows the \<^verbatim>\<open>*\<close>; nothing
  else matches.
\<close>

definition stripDot :: "string \<Rightarrow> string" where
  "stripDot s = (if s \<noteq> [] \<and> last s = CHR ''.'' then butlast s else s)"

definition normalizeName :: "string \<Rightarrow> string" where
  "normalizeName s = stripDot (ToLower s)"


text \<open>
  An exchange has failed when it returned an error or a nil response.  \<open>replyTo req\<close> is
  the reply as \<^verbatim>\<open>HandleRequest\<close> starts it: the reply to the request, with
  recursion available.
\<close>

definition exchangeFailed :: "Msg option \<times> string option \<Rightarrow> bool" where
  "exchangeFailed x = (snd x \<noteq> None \<or> fst x = None)"

definition replyTo :: "Msg \<Rightarrow> Msg" where
  "replyTo req = (SetReply newMsg req)\<lparr>RecursionAvailable := True\<rparr>"

text \<open>
  The two ways a record answers a query: by its name (lower-cased, one trailing dot
  stripped) being the query's, for the four record types; or as a wildcard, its name
  starting with \<^verbatim>\<open>*\<close> and matching the query name, for A and AAAA only.
  \<open>FindRecord_spec\<close> is the lookup as the specification words it: one pass over all
  records of all domains for a record that answers by name, and only if there is none
  anywhere, one pass for a wildcard.  \<open>FindRecord_perDomain\<close> takes the domains in
  order and makes both passes on one domain before it looks at the next.
\<close>

definition exactMatch :: "Record \<Rightarrow> string \<Rightarrow> 16 word \<Rightarrow> bool" where
  "exactMatch r qname qtype =
     (normalizeName (Name r) = normalizeName qname
      \<and> (Type r, qtype) \<in> {(''A'', TypeA), (''AAAA'', TypeAAAA), (''CNAME'', TypeCNAME),
                             (''TXT'', TypeTXT)})"

definition wildcardMatch :: "Record \<Rightarrow> string \<Rightarrow> 16 word \<Rightarrow> bool" where
  "wildcardMatch r qname qtype =
     (HasPrefix (Name r) ''*'' \<and> Match qname (Name r)
      \<and> (Type r, qtype) \<in> {(''A'', TypeA), (''AAAA'', TypeAAAA)})"

definition FindRecord_spec :: "Domain list \<Rightarrow> string \<Rightarrow> 16 word \<Rightarrow> Record option" where
  "FindRecord_spec domains qname qtype =
     (let records = concat (map Records domains)
      in case find (\<lambda>r. exactMatch r qname qtype) records of
           Some r \<Rightarrow> Some r
         | None \<Rightarrow> find (\<lambda>r. wildcardMatch r qname qtype) records)"

definition searchDomain :: "Domain \<Rightarrow> string \<Rightarrow> 16 word \<Rightarrow> Record option" where
  "searchDomain d qname qtype =
     (case find (\<lambda>r. exactMatch r qname qtype) (Records d) of
        Some r \<Rightarrow> Some r
      | None \<Rightarrow> find (\<lambda>r. wildcardMatch r qname qtype) (Records d))"

definition FindRecord_perDomain :: "Domain list \<Rightarrow> string \<Rightarrow> 16 word \<Rightarrow> Record option" where
  "FindRecord_perDomain domains qname qtype =
     (case find (\<lambda>d. searchDomain d qname qtype \<noteq> None) domains of
        Some d \<Rightarrow> searchDomain d qname qtype
      | None \<Rightarrow> None)"




text \<open>
  What \<^verbatim>\<open>range\<close> over the domain map may produce: each key once, with its value.
  What \<^verbatim>\<open>sort.Slice\<close> with the comparison by lower-cased name may produce: a
  rearrangement in which no element is less than one before it.
\<close>

definition isRangeOf :: "(string \<times> Domain) list \<Rightarrow> ViperYAMLManager \<Rightarrow> bool" where
  "isRangeOf rangeOrder m = (distinct (map fst rangeOrder) \<and> map_of rangeOrder = domainMap m)"

definition sortsByName ::
  "((DomainInfo \<Rightarrow> DomainInfo \<Rightarrow> bool) \<Rightarrow> DomainInfo list \<Rightarrow> DomainInfo list) \<Rightarrow> bool" where
  "sortsByName sortSlice =
     (\<forall>xs. mset (sortSlice lessByName xs) = mset xs
           \<and> sorted_wrt (\<lambda>a b. \<not> lessByName b a) (sortSlice lessByName xs))"

text \<open>The pagination parameters as the integers they stand for, after the clamping.\<close>

definition clampPage :: "64 word \<Rightarrow> int" where
  "clampPage page = (if sint page < 1 then 1 else sint page)"

definition clampPageSize :: "64 word \<Rightarrow> int" where
  "clampPageSize pageSize = (if sint pageSize < 1 \<or> 100 < sint pageSize then 20 else sint pageSize)"

definition domainInfoOf :: "string \<times> Domain \<Rightarrow> DomainInfo" where
  "domainInfoOf kv = \<lparr>InfoName = fst kv, RecordCount = of_nat (length (Records (snd kv)))\<rparr>"

section \<open>Concrete inputs\<close>

text \<open>
  The inputs of the examples below.  \<open>exampleParseIP\<close> is \<^verbatim>\<open>net.ParseIP\<close> at the
  literals the examples use: an IPv4 literal parses to the 16 bytes of its IPv4-mapped
  form, an IPv6 literal to its 16 bytes.  (The general theorems hold for every parser.)
\<close>

definition exampleParseIP :: "string \<Rightarrow> IP option" where
  "exampleParseIP s =
     (if s = ''192.168.1.1'' then Some (v4InV6Prefix @ [192, 168, 1, 1])
      else if s = ''10.0.0.1'' then Some (v4InV6Prefix @ [10, 0, 0, 1])
      else if s = ''10.0.0.2'' then Some (v4InV6Prefix @ [10, 0, 0, 2])
      else if s = ''::1'' then Some [0, 0, 0, 0, 0, 0, 0, 0, 0, 0, 0, 0, 0, 0, 0, 1]
      else None)"

definition query :: "string \<Rightarrow> 16 word \<Rightarrow> Msg" where
  "query name qtype =
     newMsg\<lparr>MsgId := 7, RecursionDesired := True,
            Question := [\<lparr>QName = name, Qtype = qtype, Qclass = ClassINET\<rparr>]\<rparr>"

text \<open>The configuration of the repository's README, with a second upstream.\<close>

definition aaaRecord :: Record where
  "aaaRecord = \<lparr>Name = ''aaa.test.com'', Type = ''A'', Value = ''192.168.1.1'', TTL = 300\<rparr>"

definition wildRecord :: Record where
  "wildRecord = \<lparr>Name = ''*.test.com'', Type = ''A'', Value = ''192.168.1.1'', TTL = 300\<rparr>"

definition testDomain :: Domain where
  "testDomain = \<lparr>DomainName = ''test.com'', Records = [aaaRecord, wildRecord]\<rparr>"

definition readmeConf :: Config where
  "readmeConf = \<lparr>Upstream = [''223.5.5.5:53'', ''223.6.6.6:53''], Domains = [testDomain]\<rparr>"

text \<open>A configuration whose only record is named \<^verbatim>\<open>*\<close>.\<close>

definition starConf :: Config where
  "starConf =
     \<lparr>Upstream = [''223.5.5.5:53''],
      Domains =
        [\<lparr>DomainName = ''test.com'',
          Records = [\<lparr>Name = ''*'', Type = ''A'', Value = ''10.0.0.1'', TTL = 300\<rparr>]\<rparr>]\<rparr>"

text \<open>Two networks: one where every exchange times out, one where the second upstream answers.\<close>

definition timeoutExchange :: exchange where
  "timeoutExchange i upstream msg = (None, Some ''i/o timeout'')"

definition upstreamReply :: Msg where
  "upstreamReply =
     newMsg\<lparr>MsgId := 7, Response := True, RecursionDesired := True, RecursionAvailable := True,
            Rcode := RcodeNameError,
            Question := [\<lparr>QName = ''www.example.org.'', Qtype = TypeA, Qclass = ClassINET\<rparr>],
            Ns := [dns_Other \<lparr>HdrName = ''example.org.'', Rrtype = 6, Class = ClassINET,
                              Ttl = 3600\<rparr> [1, 2, 3]]\<rparr>"

definition secondAnswers :: exchange where
  "secondAnswers i upstream msg =
     (if upstream = ''223.6.6.6:53'' then (Some upstreamReply, None)
      else (None, Some ''i/o timeout''))"

text \<open>
  The store loaded from the README's file; a file system where every step works, and one
  where the three ways of writing all fail (the file cannot be opened).
\<close>

definition readmeStore :: ViperYAMLManager where
  "readmeStore =
     \<lparr>domainMap = [''test.com'' \<mapsto> testDomain], viperDomains = [''test.com'' \<mapsto> testDomain]\<rparr>"

definition okFS :: FileSystem where
  "okFS = \<lparr>WriteConfig_fails = False, SafeWriteConfig_fails = False, MkdirAll_fails = False,
            OpenFile_fails = False, Encode_fails = False, ReadInConfig_fails = False\<rparr>"

definition readOnlyFS :: FileSystem where
  "readOnlyFS = \<lparr>WriteConfig_fails = True, SafeWriteConfig_fails = True, MkdirAll_fails = False,
                  OpenFile_fails = True, Encode_fails = False, ReadInConfig_fails = False\<rparr>"

definition bbbRecord :: Record where
  "bbbRecord = \<lparr>Name = ''bbb.test.com'', Type = ''A'', Value = ''10.0.0.2'', TTL = 60\<rparr>"


definition orgDomain :: Domain where
  "orgDomain = \<lparr>DomainName = ''example.org'', Records = []\<rparr>"







definition mailDomain :: Domain where
  "mailDomain =
     \<lparr>DomainName = ''example.org'',
      Records = [\<lparr>Name = ''mail.example.org'', Type = ''A'', Value = ''10.0.0.2'', TTL = 60\<rparr>]\<rparr>"






definition sixRecord :: Record where
  "sixRecord = \<lparr>Name = ''v6.test.com'', Type = ''AAAA'', Value = ''10.0.0.1'', TTL = 300\<rparr>"

definition mappedConf :: Config where
  "mappedConf =
     \<lparr>Upstream = [''223.5.5.5:53''],
      Domains = [\<lparr>DomainName = ''test.com'', Records = [sixRecord]\<rparr>]\<rparr>"

text \<open>
  A store of two domains, visited by \<^verbatim>\<open>range\<close> in the order given, and a sort by
  insertion for \<^verbatim>\<open>sort.Slice\<close>.
\<close>

definition twoStore :: ViperYAMLManager where
  "twoStore =
     \<lparr>domainMap = [''test.com'' \<mapsto> testDomain, ''example.org'' \<mapsto> mailDomain],
      viperDomains = [''test.com'' \<mapsto> testDomain, ''example.org'' \<mapsto> mailDomain]\<rparr>"

definition twoRange :: "(string \<times> Domain) list" where
  "twoRange = [(''test.com'', testDomain), (''example.org'', mailDomain)]"

fun insertBy :: "('a \<Rightarrow> 'a \<Rightarrow> bool) \<Rightarrow> 'a \<Rightarrow> 'a list \<Rightarrow> 'a list" where
  "insertBy lt x [] = [x]"
| "insertBy lt x (y # ys) = (if lt y x then y # insertBy lt x ys else x # y # ys)"

definition insertionSort :: "('a \<Rightarrow> 'a \<Rightarrow> bool) \<Rightarrow> 'a list \<Rightarrow> 'a list" where
  "insertionSort lt xs = foldr (insertBy lt) xs []"

section \<open>Facts about the string functions\<close>

lemma HasPrefix_prefix: "HasPrefix s pre \<longleftrightarrow> prefix pre s"
  unfolding HasPrefix_def prefix_def
  by (metis append_eq_conv_conj append_take_drop_id le_add1 length_append)

lemma HasSuffix_suffix: "HasSuffix s suf \<longleftrightarrow> suffix suf s"
  unfolding HasSuffix_def suffix_def
  by (metis append_eq_conv_conj append_take_drop_id diff_add_inverse2 le_add2 length_append)

lemma HasPrefix_star: "HasPrefix s ''*'' \<longleftrightarrow> (\<exists>t. s = CHR ''*'' # t)"
  by (auto simp: HasPrefix_prefix prefix_def)


lemma TrimSuffix_dot: "TrimSuffix s ''.'' = stripDot s"
proof (cases s rule: rev_cases)
  case Nil
  then show ?thesis by (simp add: TrimSuffix_def HasSuffix_def stripDot_def)
next
  case (snoc ys y)
  then show ?thesis by (simp add: TrimSuffix_def HasSuffix_def stripDot_def)
qed

lemma of_char_lowerByte:
  "(of_char (lowerByte c) :: nat) =
     (if 65 \<le> (of_char c :: nat) \<and> (of_char c :: nat) \<le> 90 then of_char c + 32 else of_char c)"
  by (simp add: lowerByte_def Let_def)

lemma lowerByte_dot: "lowerByte c = CHR ''.'' \<longleftrightarrow> c = CHR ''.''"
proof
  assume "lowerByte c = CHR ''.''"
  then have "(of_char (lowerByte c) :: nat) = of_char (CHR ''.'')" by simp
  then have "(of_char c :: nat) = of_char (CHR ''.'')"
    by (simp add: of_char_lowerByte split: if_splits)
  then show "c = CHR ''.''" by (simp only: of_char_eq_iff)
next
  assume "c = CHR ''.''"
  then show "lowerByte c = CHR ''.''" by (simp add: lowerByte_def)
qed

lemma lowerByte_star: "lowerByte c = CHR ''*'' \<longleftrightarrow> c = CHR ''*''"
proof
  assume "lowerByte c = CHR ''*''"
  then have "(of_char (lowerByte c) :: nat) = of_char (CHR ''*'')" by simp
  then have "(of_char c :: nat) = of_char (CHR ''*'')"
    by (simp add: of_char_lowerByte split: if_splits)
  then show "c = CHR ''*''" by (simp only: of_char_eq_iff)
next
  assume "c = CHR ''*''"
  then show "lowerByte c = CHR ''*''" by (simp add: lowerByte_def)
qed

lemma ToLower_Nil [simp]: "ToLower [] = []"
  by (simp add: ToLower_def)

lemma ToLower_eq_Nil [simp]: "ToLower s = [] \<longleftrightarrow> s = []"
  by (simp add: ToLower_def)

lemma ToLower_butlast: "ToLower (butlast s) = butlast (ToLower s)"
  by (simp add: ToLower_def map_butlast)

lemma last_ToLower_dot: "s \<noteq> [] \<Longrightarrow> last (ToLower s) = CHR ''.'' \<longleftrightarrow> last s = CHR ''.''"
  by (simp add: ToLower_def last_map lowerByte_dot)

text \<open>The code strips the dot first and lower-cases then; the order does not matter.\<close>

lemma normalizeName_code: "ToLower (TrimSuffix s ''.'') = normalizeName s"
proof (cases "s = []")
  case True
  then show ?thesis by (simp add: TrimSuffix_dot normalizeName_def stripDot_def)
next
  case False
  then show ?thesis
    by (simp add: TrimSuffix_dot normalizeName_def stripDot_def ToLower_butlast last_ToLower_dot)
qed

lemma normalizeName_star: "HasPrefix (normalizeName rule) ''*'' \<longleftrightarrow> HasPrefix rule ''*''"
proof (cases rule)
  case Nil
  then show ?thesis by (simp add: normalizeName_def stripDot_def HasPrefix_def)
next
  case (Cons c cs)
  show ?thesis
  proof (cases cs rule: rev_cases)
    case Nil
    with Cons show ?thesis
      by (auto simp: normalizeName_def stripDot_def HasPrefix_star ToLower_def lowerByte_star
            lowerByte_dot)
  next
    case (snoc ds d)
    with Cons show ?thesis
      by (auto simp: normalizeName_def stripDot_def HasPrefix_star ToLower_def lowerByte_star)
  qed
qed

lemma Match_normalized:
  "Match qname rule =
     (if HasPrefix rule ''*'' then suffix (drop 1 (normalizeName rule)) (normalizeName qname)
      else normalizeName qname = normalizeName rule)"
proof (cases "HasPrefix rule ''*''")
  case True
  then obtain t where t: "normalizeName rule = CHR ''*'' # t"
    using normalizeName_star [of rule] by (auto simp: HasPrefix_star)
  show ?thesis
    using True t
    by (auto simp: Match_def Let_def normalizeName_code HasPrefix_star HasSuffix_suffix
          suffix_Cons)
next
  case False
  then have "\<not> HasPrefix (normalizeName rule) ''*''"
    by (simp add: normalizeName_star)
  with False show ?thesis
    by (simp add: Match_def Let_def normalizeName_code)
qed


section \<open>Facts about the engine\<close>

lemma GetDomains_eq [simp]: "GetDomains c = Domains c"
  by (simp add: GetDomains_def map_idI)

lemma IsDomainConfigured_iff:
  "IsDomainConfigured conf qname \<longleftrightarrow>
     (\<exists>d \<in> set (Domains conf). \<exists>r \<in> set (Records d). Match qname (Name r))"
  by (simp add: IsDomainConfigured_def list_ex_iff)

lemma Match_star: "Match qname ''*''"
  by (simp add: Match_normalized HasPrefix_def normalizeName_def stripDot_def ToLower_def
        lowerByte_def)

text \<open>The forwarding loop: every upstream fails, or the first one that answers ends it.\<close>

lemma forwardLoop_all_fail:
  "(\<forall>j < length us. exchangeFailed (ex (i + j) (us ! j) req)) \<Longrightarrow>
   forwardLoop ex i us req =
     (None, Some ''failed to get a valid response from any of the configured upstream servers'',
      map (\<lambda>u. (u, req)) us)"
proof (induction us arbitrary: i)
  case Nil
  then show ?case by simp
next
  case (Cons u us)
  have h0: "exchangeFailed (ex i u req)"
    using Cons.prems by force
  have "\<forall>j < length us. exchangeFailed (ex (Suc i + j) (us ! j) req)"
    using Cons.prems by force
  then have ih: "forwardLoop ex (Suc i) us req =
     (None, Some ''failed to get a valid response from any of the configured upstream servers'',
      map (\<lambda>u. (u, req)) us)"
    by (rule Cons.IH)
  show ?case
    using h0 ih by (cases "ex i u req") (simp add: exchangeFailed_def Copy_def)
qed

lemma forwardLoop_first_success:
  "(\<forall>j < length pre. exchangeFailed (ex (i + j) (pre ! j) req)) \<Longrightarrow>
   ex (i + length pre) u req = (Some resp, None) \<Longrightarrow>
   forwardLoop ex i (pre @ u # post) req = (Some resp, None, map (\<lambda>u. (u, req)) (pre @ [u]))"
proof (induction pre arbitrary: i)
  case Nil
  then show ?case by (simp add: Copy_def)
next
  case (Cons p pre)
  have h0: "exchangeFailed (ex i p req)"
    using Cons.prems(1) by force
  have "\<forall>j < length pre. exchangeFailed (ex (Suc i + j) (pre ! j) req)"
    using Cons.prems(1) by force
  moreover have "ex (Suc i + length pre) u req = (Some resp, None)"
    using Cons.prems(2) by simp
  ultimately have ih: "forwardLoop ex (Suc i) (pre @ u # post) req =
      (Some resp, None, map (\<lambda>u. (u, req)) (pre @ [u]))"
    by (rule Cons.IH)
  show ?case
    using h0 ih by (cases "ex i p req") (simp add: exchangeFailed_def Copy_def)
qed

section \<open>Facts about the store\<close>


lemma updateLoop_first:
  "\<forall>x \<in> set pre. Name x \<noteq> recordName \<Longrightarrow> Name r = recordName \<Longrightarrow>
   updateLoop (pre @ r # post) recordName newRecord = (pre @ newRecord # post, True)"
  by (induction pre) auto

lemma writeBack_PersistenceError: "writeBack fs = Some e \<Longrightarrow> \<exists>step. e = PersistenceError step"
  by (auto simp: writeBack_def readInConfig_def split: if_splits)

section \<open>Facts about the lookup\<close>
















lemma FindRecord_spec_single: "FindRecord_spec [d] qname qtype = searchDomain d qname qtype"
  by (simp add: FindRecord_spec_def searchDomain_def Let_def)

lemma FindRecord_perDomain_single: "FindRecord_perDomain [d] qname qtype = searchDomain d qname qtype"
  by (cases "searchDomain d qname qtype") (simp_all add: FindRecord_perDomain_def)








lemma find_skip: "\<forall>x \<in> set xs. \<not> P x \<Longrightarrow> find P (xs @ ys) = find P ys"
  by (induction xs) auto




lemma handle_configured:
  assumes "Question req = q # qs" and "IsDomainConfigured conf (QName q)"
  shows "HandleRequest parseIP exchange conf req =
     (case (case FindRecord conf (QName q) (Qtype q) of
              None \<Rightarrow> None
            | Some record \<Rightarrow> synthesize parseIP record (QName q) (Qtype q)) of
        Some rr \<Rightarrow> ((replyTo req)\<lparr>Answer := [rr]\<rparr>, [])
      | None \<Rightarrow> (SetRcode (replyTo req) req RcodeSuccess, []))"
  using assms
  by (simp add: HandleRequest_def Let_def replyTo_def SetReply_def newMsg_def
        split: option.splits list.splits)

section \<open>Facts about 64-bit signed integers and about sorting\<close>

lemma sint_word_of_int64:
  "- (2 ^ 63) \<le> k \<Longrightarrow> k < 2 ^ 63 \<Longrightarrow> sint (word_of_int k :: 64 word) = k"
  by (simp add: signed_of_int signed_take_bit_int_eq_self)

lemma sint_mult64:
  "- (2 ^ 63) \<le> sint a * sint b \<Longrightarrow> sint a * sint b < 2 ^ 63 \<Longrightarrow>
   sint (a * b :: 64 word) = sint a * sint b"
proof -
  assume b: "- (2 ^ 63) \<le> sint a * sint b" "sint a * sint b < 2 ^ 63"
  have "a * b = word_of_int (sint a * sint b)"
    by simp
  then show ?thesis
    using sint_word_of_int64 [OF b] by simp
qed

lemma sint_add64:
  "- (2 ^ 63) \<le> sint a + sint b \<Longrightarrow> sint a + sint b < 2 ^ 63 \<Longrightarrow>
   sint (a + b :: 64 word) = sint a + sint b"
proof -
  assume b: "- (2 ^ 63) \<le> sint a + sint b" "sint a + sint b < 2 ^ 63"
  have "a + b = word_of_int (sint a + sint b)"
    by simp
  then show ?thesis
    using sint_word_of_int64 [OF b] by simp
qed

lemma sint_pred64: "1 \<le> sint (p :: 64 word) \<Longrightarrow> sint (p - 1) = sint p - 1"
proof -
  assume p: "1 \<le> sint p"
  have lt: "sint p < 2 ^ 63"
    using sint_lt [of p] by simp
  have "p - 1 = word_of_int (sint p - 1)"
    by simp
  then show ?thesis
    using sint_word_of_int64 [of "sint p - 1"] p lt by simp
qed

lemma sint_of_nat64: "n < 2 ^ 63 \<Longrightarrow> sint (of_nat n :: 64 word) = int n"
proof -
  assume n: "n < 2 ^ 63"
  have "(of_nat n :: 64 word) = word_of_int (int n)"
    by simp
  moreover have "int n < int (2 ^ 63)"
    using n by (simp only: of_nat_less_iff)
  then have "int n < 2 ^ 63"
    by simp
  ultimately show ?thesis
    using sint_word_of_int64 [of "int n"] by simp
qed

lemma unat_sint64: "0 \<le> sint (w :: 64 word) \<Longrightarrow> unat w = nat (sint w)"
proof -
  assume w: "0 \<le> sint w"
  have "uint w = sint w mod 2 ^ 64"
    by (simp add: uint_sint take_bit_eq_mod)
  moreover have "sint w < 2 ^ 64"
    using sint_lt [of w] by simp
  ultimately have "uint w = sint w"
    using w by simp
  then show ?thesis
    by (simp add: unat_eq_nat_uint)
qed

lemma insertBy_insort:
  "insertBy lessByName x ys = insort_key (\<lambda>d. ToLower (InfoName d)) x ys"
  by (induction ys) (auto simp: lessByName_def)

lemma insertionSort_sort_key:
  "insertionSort lessByName xs = sort_key (\<lambda>d. ToLower (InfoName d)) xs"
proof -
  have "insertBy lessByName = insort_key (\<lambda>d. ToLower (InfoName d))"
    by (intro ext) (rule insertBy_insort)
  then show ?thesis
    by (simp add: insertionSort_def sort_key_def)
qed

lemma sortsByName_insertionSort: "sortsByName insertionSort"
  unfolding sortsByName_def insertionSort_sort_key
proof (intro allI conjI)
  fix xs :: "DomainInfo list"
  show "mset (sort_key (\<lambda>d. ToLower (InfoName d)) xs) = mset xs" by simp
  have "sorted (map (\<lambda>d. ToLower (InfoName d)) (sort_key (\<lambda>d. ToLower (InfoName d)) xs))"
    by (rule sorted_sort_key)
  then show "sorted_wrt (\<lambda>a b. \<not> lessByName b a) (sort_key (\<lambda>d. ToLower (InfoName d)) xs)"
    by (simp add: sorted_wrt_map lessByName_def not_less)
qed

section \<open>Facts about the pagination\<close>

lemma card_dom_range: "isRangeOf rangeOrder m \<Longrightarrow> card (dom (domainMap m)) = length rangeOrder"
proof -
  assume r: "isRangeOf rangeOrder m"
  then have "dom (domainMap m) = set (map fst rangeOrder)"
    by (simp add: isRangeOf_def dom_map_of_conv_image_fst [symmetric])
  moreover have "distinct (map fst rangeOrder)"
    using r by (simp add: isRangeOf_def)
  ultimately show ?thesis
    using distinct_card [of "map fst rangeOrder"] by simp
qed

lemma domainInfoOf_lambda:
  "(\<lambda>(name, domain). \<lparr>InfoName = name, RecordCount = of_nat (length (Records domain))\<rparr>)
     = domainInfoOf"
  by (simp add: fun_eq_iff domainInfoOf_def)

lemma clamp_words:
  "sint (if page <s 1 then 1 else page :: 64 word) = clampPage page"
  "sint (if pageSize <s 1 \<or> 100 <s pageSize then 20 else pageSize :: 64 word) = clampPageSize pageSize"
  by (simp_all add: clampPage_def clampPageSize_def word_sless_alt)

lemma clamp_bounds:
  "1 \<le> clampPage page" "1 \<le> clampPageSize pageSize" "clampPageSize pageSize \<le> 100"
  by (simp_all add: clampPage_def clampPageSize_def)

section \<open>The claims\<close>


text \<open>
  C4.  For a request whose first question names no configured name, the upstreams are
  tried in the configured order, each with a copy of the request.  When the upstreams
  before one all fail (an error or a nil response) and that one answers, the iteration
  stops there: the exchanges made are those up to it, and the reply carries its answer,
  authority and additional sections and its response code.  When every upstream fails,
  the reply has the server-failure code and recursion-available cleared, and every
  upstream was tried once.
\<close>

theorem forward_failover:
  assumes "Question req = q # qs" and "\<not> IsDomainConfigured conf (QName q)"
  shows "(Upstream conf = pre @ u # post \<longrightarrow>
          (\<forall>j < length pre. exchangeFailed (exchange j (pre ! j) req)) \<longrightarrow>
          exchange (length pre) u req = (Some resp, None) \<longrightarrow>
          HandleRequest parseIP exchange conf req =
            ((replyTo req)\<lparr>Answer := Answer resp, Ns := Ns resp, Extra := Extra resp,
                            Rcode := Rcode resp\<rparr>,
             map (\<lambda>u. (u, req)) (pre @ [u])))
       \<and> ((\<forall>j < length (Upstream conf). exchangeFailed (exchange j (Upstream conf ! j) req)) \<longrightarrow>
          Rcode (fst (HandleRequest parseIP exchange conf req)) = RcodeServerFailure
          \<and> \<not> RecursionAvailable (fst (HandleRequest parseIP exchange conf req))
          \<and> snd (HandleRequest parseIP exchange conf req) = map (\<lambda>u. (u, req)) (Upstream conf))"
proof (intro conjI impI)
  assume ups: "Upstream conf = pre @ u # post"
    and fails: "\<forall>j < length pre. exchangeFailed (exchange j (pre ! j) req)"
    and ok: "exchange (length pre) u req = (Some resp, None)"
  have "forwardLoop exchange 0 (pre @ u # post) req =
      (Some resp, None, map (\<lambda>u. (u, req)) (pre @ [u]))"
    by (rule forwardLoop_first_success) (use fails ok in simp_all)
  then have "ForwardRequest exchange conf req =
      (Some resp, None, map (\<lambda>u. (u, req)) (pre @ [u]))"
    by (simp add: ForwardRequest_def GetUpstream_def ups)
  then show "HandleRequest parseIP exchange conf req =
         ((replyTo req)\<lparr>Answer := Answer resp, Ns := Ns resp, Extra := Extra resp,
                         Rcode := Rcode resp\<rparr>,
          map (\<lambda>u. (u, req)) (pre @ [u]))"
    using assms by (simp add: HandleRequest_def replyTo_def Let_def)
next
  assume fails: "\<forall>j < length (Upstream conf). exchangeFailed (exchange j (Upstream conf ! j) req)"
  have "forwardLoop exchange 0 (Upstream conf) req =
     (None, Some ''failed to get a valid response from any of the configured upstream servers'',
      map (\<lambda>u. (u, req)) (Upstream conf))"
    by (rule forwardLoop_all_fail) (use fails in simp)
  then have fwd: "ForwardRequest exchange conf req =
     (None, Some ''failed to get a valid response from any of the configured upstream servers'',
      map (\<lambda>u. (u, req)) (Upstream conf))"
    by (simp add: ForwardRequest_def GetUpstream_def)
  show "Rcode (fst (HandleRequest parseIP exchange conf req)) = RcodeServerFailure"
    using assms fwd by (simp add: HandleRequest_def Let_def SetRcode_def)
  show "\<not> RecursionAvailable (fst (HandleRequest parseIP exchange conf req))"
    using assms fwd by (simp add: HandleRequest_def Let_def SetRcode_def)
  show "snd (HandleRequest parseIP exchange conf req) = map (\<lambda>u. (u, req)) (Upstream conf)"
    using assms fwd by (simp add: HandleRequest_def Let_def SetRcode_def)
qed

text \<open>
  The example of the specification: of two upstreams the first times out and the second
  answers, and the reply is the second's; both time out, and the reply is a server
  failure.
\<close>

theorem forward_failover_witness:
  "HandleRequest exampleParseIP secondAnswers readmeConf (query ''www.example.org.'' TypeA) =
     ((replyTo (query ''www.example.org.'' TypeA))
        \<lparr>Answer := Answer upstreamReply, Ns := Ns upstreamReply, Extra := Extra upstreamReply,
         Rcode := Rcode upstreamReply\<rparr>,
      [(''223.5.5.5:53'', query ''www.example.org.'' TypeA),
       (''223.6.6.6:53'', query ''www.example.org.'' TypeA)])
   \<and> Rcode (fst (HandleRequest exampleParseIP timeoutExchange readmeConf
               (query ''www.example.org.'' TypeA))) = RcodeServerFailure
   \<and> \<not> RecursionAvailable (fst (HandleRequest exampleParseIP timeoutExchange readmeConf
               (query ''www.example.org.'' TypeA)))
   \<and> snd (HandleRequest exampleParseIP timeoutExchange readmeConf
               (query ''www.example.org.'' TypeA)) =
       [(''223.5.5.5:53'', query ''www.example.org.'' TypeA),
        (''223.6.6.6:53'', query ''www.example.org.'' TypeA)]"
proof -
  let ?req = "query ''www.example.org.'' TypeA"
  let ?q = "\<lparr>QName = ''www.example.org.'', Qtype = TypeA, Qclass = ClassINET\<rparr>"
  have q: "Question ?req = ?q # []"
    by (simp add: query_def newMsg_def)
  have nc: "\<not> IsDomainConfigured readmeConf (QName ?q)"
    by code_simp
  have ups: "Upstream readmeConf = [''223.5.5.5:53''] @ ''223.6.6.6:53'' # []"
    by (simp add: readmeConf_def)
  have f1: "\<forall>j < length [''223.5.5.5:53'']. exchangeFailed
              (secondAnswers j ([''223.5.5.5:53''] ! j) ?req)"
    by (simp add: secondAnswers_def exchangeFailed_def)
  have ok: "secondAnswers (length [''223.5.5.5:53'']) ''223.6.6.6:53'' ?req
              = (Some upstreamReply, None)"
    by (simp add: secondAnswers_def)
  have f2: "\<forall>j < length (Upstream readmeConf). exchangeFailed
              (timeoutExchange j (Upstream readmeConf ! j) ?req)"
    by (simp add: timeoutExchange_def exchangeFailed_def)
  have ups2: "map (\<lambda>u. (u, ?req)) (Upstream readmeConf) =
       [(''223.5.5.5:53'', ?req), (''223.6.6.6:53'', ?req)]"
    by (simp add: readmeConf_def)
  show ?thesis
    using forward_failover [OF q nc, where pre = "[''223.5.5.5:53'']" and u = "''223.6.6.6:53''"
        and post = "[]" and exchange = secondAnswers and resp = upstreamReply
        and parseIP = exampleParseIP]
      forward_failover [OF q nc, where exchange = timeoutExchange and parseIP = exampleParseIP]
      ups f1 ok f2 ups2
    by simp
qed

text \<open>
  C10.  \<^verbatim>\<open>Match\<close> holds of every query name and the rule \<^verbatim>\<open>*\<close>.  So when some
  record of some domain is named \<^verbatim>\<open>*\<close>, every query name is configured, and the
  handler makes no exchange with an upstream, whatever the request.
\<close>

theorem star_record_configures_everything:
  assumes "d \<in> set (Domains conf)" and "r \<in> set (Records d)" and "Name r = ''*''"
  shows "Match qname ''*'' \<and> IsDomainConfigured conf qname
         \<and> snd (HandleRequest parseIP exchange conf req) = []"
proof (intro conjI)
  show "Match qname ''*''" by (rule Match_star)
  have conf: "IsDomainConfigured conf n" for n
  proof -
    have "Match n (Name r)"
      using assms(3) Match_star [of n] by simp
    with assms(1,2) show ?thesis
      unfolding IsDomainConfigured_iff by blast
  qed
  then show "IsDomainConfigured conf qname" .
  show "snd (HandleRequest parseIP exchange conf req) = []"
    by (simp add: HandleRequest_def Let_def conf split: list.splits option.splits)
qed

theorem star_record_witness:
  "Match ''www.example.org.'' ''*'' \<and> IsDomainConfigured starConf ''www.example.org.''
   \<and> snd (HandleRequest exampleParseIP secondAnswers starConf
            (query ''www.example.org.'' TypeA)) = []"
  using star_record_configures_everything [of
     "\<lparr>DomainName = ''test.com'',
       Records = [\<lparr>Name = ''*'', Type = ''A'', Value = ''10.0.0.1'', TTL = 300\<rparr>]\<rparr>"
     starConf "\<lparr>Name = ''*'', Type = ''A'', Value = ''10.0.0.1'', TTL = 300\<rparr>"
     "''www.example.org.''" exampleParseIP secondAnswers "query ''www.example.org.'' TypeA"]
  by (simp add: starConf_def)

text \<open>
  C7.  \<^verbatim>\<open>AddRecord\<close> fails with the not-found error when the domain is absent, and
  with the conflict error when the domain has a record of the same name and type; in both
  cases the store is the one before the call.  Otherwise the record is put at the end of
  the domain's record list, the other domains stay, and the store persists: the new map is
  handed to the write-back, whose outcome is the result.
\<close>

theorem AddRecord_contract:
  "(domainMap m domainName = None \<longrightarrow>
      AddRecord fs m domainName record = (Some (NotFoundError domainName None), m))
   \<and> (domainMap m domainName = Some d \<longrightarrow>
        (\<exists>r \<in> set (Records d). Name r = Name record \<and> Type r = Type record) \<longrightarrow>
        AddRecord fs m domainName record =
          (Some (ConflictError domainName (Name record) (Type record)), m))
   \<and> (domainMap m domainName = Some d \<longrightarrow>
        \<not> (\<exists>r \<in> set (Records d). Name r = Name record \<and> Type r = Type record) \<longrightarrow>
        AddRecord fs m domainName record =
          updateDomainsNode fs
            (m\<lparr>domainMap := (domainMap m)(domainName \<mapsto> d\<lparr>Records := Records d @ [record]\<rparr>)\<rparr>)
        \<and> fst (AddRecord fs m domainName record) = writeBack fs
        \<and> domainMap (snd (AddRecord fs m domainName record)) =
            (domainMap m)(domainName \<mapsto> d\<lparr>Records := Records d @ [record]\<rparr>)
        \<and> viperDomains (snd (AddRecord fs m domainName record)) =
            domainMap (snd (AddRecord fs m domainName record)))"
proof (intro conjI impI)
  assume "domainMap m domainName = None"
  then show "AddRecord fs m domainName record = (Some (NotFoundError domainName None), m)"
    by (simp add: AddRecord_def)
next
  assume "domainMap m domainName = Some d"
    and "\<exists>r \<in> set (Records d). Name r = Name record \<and> Type r = Type record"
  then show "AddRecord fs m domainName record =
          (Some (ConflictError domainName (Name record) (Type record)), m)"
    by (simp add: AddRecord_def list_ex_iff)
next
  assume d: "domainMap m domainName = Some d"
    and fresh: "\<not> (\<exists>r \<in> set (Records d). Name r = Name record \<and> Type r = Type record)"
  show eq: "AddRecord fs m domainName record =
          updateDomainsNode fs
            (m\<lparr>domainMap := (domainMap m)(domainName \<mapsto> d\<lparr>Records := Records d @ [record]\<rparr>)\<rparr>)"
    using d fresh by (auto simp: AddRecord_def list_ex_iff)
  show "fst (AddRecord fs m domainName record) = writeBack fs"
    unfolding eq by (simp add: updateDomainsNode_def)
  show "domainMap (snd (AddRecord fs m domainName record)) =
            (domainMap m)(domainName \<mapsto> d\<lparr>Records := Records d @ [record]\<rparr>)"
    unfolding eq by (simp add: updateDomainsNode_def)
  show "viperDomains (snd (AddRecord fs m domainName record)) =
            domainMap (snd (AddRecord fs m domainName record))"
    unfolding eq by (simp add: updateDomainsNode_def)
qed

theorem AddRecord_witness:
  "AddRecord okFS readmeStore ''example.org'' bbbRecord =
     (Some (NotFoundError ''example.org'' None), readmeStore)
   \<and> AddRecord okFS readmeStore ''test.com'' (aaaRecord\<lparr>Value := ''10.0.0.2''\<rparr>) =
       (Some (ConflictError ''test.com'' ''aaa.test.com'' ''A''), readmeStore)
   \<and> fst (AddRecord okFS readmeStore ''test.com'' bbbRecord) = None
   \<and> domainMap (snd (AddRecord okFS readmeStore ''test.com'' bbbRecord)) ''test.com'' =
       Some \<lparr>DomainName = ''test.com'', Records = [aaaRecord, wildRecord, bbbRecord]\<rparr>"
proof -
  have absent: "domainMap readmeStore ''example.org'' = None"
    by (simp add: readmeStore_def)
  have present: "domainMap readmeStore ''test.com'' = Some testDomain"
    by (simp add: readmeStore_def)
  have dup: "\<exists>r \<in> set (Records testDomain).
      Name r = Name (aaaRecord\<lparr>Value := ''10.0.0.2''\<rparr>) \<and> Type r = Type (aaaRecord\<lparr>Value := ''10.0.0.2''\<rparr>)"
    by (simp add: testDomain_def)
  have fresh: "\<not> (\<exists>r \<in> set (Records testDomain). Name r = Name bbbRecord \<and> Type r = Type bbbRecord)"
    by (simp add: testDomain_def aaaRecord_def wildRecord_def bbbRecord_def)
  have ok: "writeBack okFS = None"
    by (simp add: writeBack_def readInConfig_def okFS_def)
  have c1: "AddRecord okFS readmeStore ''example.org'' bbbRecord =
     (Some (NotFoundError ''example.org'' None), readmeStore)"
    using AddRecord_contract [of readmeStore "''example.org''" okFS bbbRecord testDomain] absent
    by blast
  have c2: "AddRecord okFS readmeStore ''test.com'' (aaaRecord\<lparr>Value := ''10.0.0.2''\<rparr>) =
       (Some (ConflictError ''test.com'' (Name (aaaRecord\<lparr>Value := ''10.0.0.2''\<rparr>))
          (Type (aaaRecord\<lparr>Value := ''10.0.0.2''\<rparr>))), readmeStore)"
    using AddRecord_contract [of readmeStore "''test.com''" okFS
        "aaaRecord\<lparr>Value := ''10.0.0.2''\<rparr>" testDomain] present dup
    by blast
  have c3: "fst (AddRecord okFS readmeStore ''test.com'' bbbRecord) = writeBack okFS
      \<and> domainMap (snd (AddRecord okFS readmeStore ''test.com'' bbbRecord)) =
            (domainMap readmeStore)
              (''test.com'' \<mapsto> testDomain\<lparr>Records := Records testDomain @ [bbbRecord]\<rparr>)"
    using AddRecord_contract [of readmeStore "''test.com''" okFS bbbRecord testDomain] present fresh
    by blast
  show ?thesis
    using c1 c2 c3 ok by (simp add: testDomain_def aaaRecord_def)
qed



text \<open>
  C3, as stated, fails: every mutating operation changes the domain map first and calls
  the write-back afterwards, and nothing restores the map when the write-back fails.
  Here the file cannot be written, \<^verbatim>\<open>AddOrUpdateDomain\<close> returns the error of the
  write-back, and the map holds the new domain all the same.
\<close>

theorem persistence_failure_counterexample:
  "fst (AddOrUpdateDomain readOnlyFS readmeStore orgDomain) = Some (PersistenceError OpenFile)
   \<and> domainMap (snd (AddOrUpdateDomain readOnlyFS readmeStore orgDomain)) ''example.org'' =
       Some orgDomain
   \<and> domainMap readmeStore ''example.org'' = None
   \<and> domainMap (snd (AddOrUpdateDomain readOnlyFS readmeStore orgDomain)) \<noteq>
       domainMap readmeStore"
proof -
  have a: "fst (AddOrUpdateDomain readOnlyFS readmeStore orgDomain) =
      Some (PersistenceError OpenFile)"
    by (simp add: AddOrUpdateDomain_def updateDomainsNode_def writeBack_def readOnlyFS_def
          orgDomain_def)
  have b: "domainMap (snd (AddOrUpdateDomain readOnlyFS readmeStore orgDomain)) ''example.org'' =
      Some orgDomain"
    by (simp add: AddOrUpdateDomain_def updateDomainsNode_def orgDomain_def)
  have c: "domainMap readmeStore ''example.org'' = None"
    by (simp add: readmeStore_def)
  from b c have "domainMap (snd (AddOrUpdateDomain readOnlyFS readmeStore orgDomain)) \<noteq>
       domainMap readmeStore"
    by (metis option.distinct(1))
  with a b c show ?thesis by simp
qed

text \<open>
  C3, amended.  For each of the five mutating operations: when the operation passes its
  own checks and the write-back fails, the operation returns the write-back's error (a
  persistence error) and the domain map holds the change all the same: the domain put in,
  the domain removed, the record appended, the first record of the name replaced, the
  records of the name removed.
\<close>

theorem persistence_failure_keeps_change:
  assumes "writeBack fs = Some e"
  shows "(\<exists>step. e = PersistenceError step)
   \<and> (DomainName domain \<noteq> [] \<longrightarrow>
        fst (AddOrUpdateDomain fs m domain) = Some e
        \<and> domainMap (snd (AddOrUpdateDomain fs m domain)) =
            (domainMap m)(DomainName domain \<mapsto> domain))
   \<and> (domainMap m domainName = Some d \<longrightarrow>
        fst (DeleteDomain fs m domainName) = Some e
        \<and> domainMap (snd (DeleteDomain fs m domainName)) = (domainMap m)(domainName := None))
   \<and> (domainMap m domainName = Some d \<longrightarrow>
        \<not> (\<exists>r \<in> set (Records d). Name r = Name added \<and> Type r = Type added) \<longrightarrow>
        fst (AddRecord fs m domainName added) = Some e
        \<and> domainMap (snd (AddRecord fs m domainName added)) =
            (domainMap m)(domainName \<mapsto> d\<lparr>Records := Records d @ [added]\<rparr>))
   \<and> (domainMap m domainName = Some d \<longrightarrow> Records d = pre @ r # post \<longrightarrow>
        (\<forall>x \<in> set pre. Name x \<noteq> recordName) \<longrightarrow> Name r = recordName \<longrightarrow>
        fst (UpdateRecord fs m domainName recordName newRecord) = Some e
        \<and> domainMap (snd (UpdateRecord fs m domainName recordName newRecord)) =
            (domainMap m)(domainName \<mapsto> d\<lparr>Records := pre @ newRecord # post\<rparr>))
   \<and> (domainMap m domainName = Some d \<longrightarrow> (\<exists>r \<in> set (Records d). Name r = recordName) \<longrightarrow>
        fst (DeleteRecord fs m domainName recordName) = Some e
        \<and> domainMap (snd (DeleteRecord fs m domainName recordName)) =
            (domainMap m)
              (domainName \<mapsto> d\<lparr>Records := filter (\<lambda>r. Name r \<noteq> recordName) (Records d)\<rparr>))"
proof (intro conjI impI)
  show "\<exists>step. e = PersistenceError step"
    using assms by (rule writeBack_PersistenceError)
next
  assume "DomainName domain \<noteq> []"
  then show "fst (AddOrUpdateDomain fs m domain) = Some e"
    and "domainMap (snd (AddOrUpdateDomain fs m domain)) =
            (domainMap m)(DomainName domain \<mapsto> domain)"
    using assms by (simp_all add: AddOrUpdateDomain_def updateDomainsNode_def)
next
  assume "domainMap m domainName = Some d"
  then show "fst (DeleteDomain fs m domainName) = Some e"
    and "domainMap (snd (DeleteDomain fs m domainName)) = (domainMap m)(domainName := None)"
    using assms by (simp_all add: DeleteDomain_def updateDomainsNode_def)
next
  assume "domainMap m domainName = Some d"
    and "\<not> (\<exists>r \<in> set (Records d). Name r = Name added \<and> Type r = Type added)"
  then show "fst (AddRecord fs m domainName added) = Some e"
    and "domainMap (snd (AddRecord fs m domainName added)) =
            (domainMap m)(domainName \<mapsto> d\<lparr>Records := Records d @ [added]\<rparr>)"
    using assms by (auto simp: AddRecord_def updateDomainsNode_def list_ex_iff)
next
  assume d: "domainMap m domainName = Some d" and split: "Records d = pre @ r # post"
    and pre: "\<forall>x \<in> set pre. Name x \<noteq> recordName" and r: "Name r = recordName"
  have "updateLoop (Records d) recordName newRecord = (pre @ newRecord # post, True)"
    unfolding split using pre r by (rule updateLoop_first)
  then show "fst (UpdateRecord fs m domainName recordName newRecord) = Some e"
    and "domainMap (snd (UpdateRecord fs m domainName recordName newRecord)) =
            (domainMap m)(domainName \<mapsto> d\<lparr>Records := pre @ newRecord # post\<rparr>)"
    using assms d by (simp_all add: UpdateRecord_def updateDomainsNode_def)
next
  assume "domainMap m domainName = Some d" and "\<exists>r \<in> set (Records d). Name r = recordName"
  then show "fst (DeleteRecord fs m domainName recordName) = Some e"
    and "domainMap (snd (DeleteRecord fs m domainName recordName)) =
            (domainMap m)
              (domainName \<mapsto> d\<lparr>Records := filter (\<lambda>r. Name r \<noteq> recordName) (Records d)\<rparr>)"
    using assms by (auto simp: DeleteRecord_def updateDomainsNode_def list_ex_iff Let_def)
qed

theorem persistence_failure_witness:
  "fst (AddOrUpdateDomain readOnlyFS readmeStore orgDomain) = Some (PersistenceError OpenFile)
   \<and> domainMap (snd (AddOrUpdateDomain readOnlyFS readmeStore orgDomain)) ''example.org'' =
       Some orgDomain
   \<and> fst (DeleteDomain readOnlyFS readmeStore ''test.com'') = Some (PersistenceError OpenFile)
   \<and> domainMap (snd (DeleteDomain readOnlyFS readmeStore ''test.com'')) ''test.com'' = None
   \<and> fst (AddRecord readOnlyFS readmeStore ''test.com'' bbbRecord) =
       Some (PersistenceError OpenFile)
   \<and> domainMap (snd (AddRecord readOnlyFS readmeStore ''test.com'' bbbRecord)) ''test.com'' =
       Some \<lparr>DomainName = ''test.com'', Records = [aaaRecord, wildRecord, bbbRecord]\<rparr>
   \<and> fst (UpdateRecord readOnlyFS readmeStore ''test.com'' ''*.test.com'' bbbRecord) =
       Some (PersistenceError OpenFile)
   \<and> domainMap (snd (UpdateRecord readOnlyFS readmeStore ''test.com'' ''*.test.com'' bbbRecord))
         ''test.com'' =
       Some \<lparr>DomainName = ''test.com'', Records = [aaaRecord, bbbRecord]\<rparr>
   \<and> fst (DeleteRecord readOnlyFS readmeStore ''test.com'' ''aaa.test.com'') =
       Some (PersistenceError OpenFile)
   \<and> domainMap (snd (DeleteRecord readOnlyFS readmeStore ''test.com'' ''aaa.test.com''))
         ''test.com'' =
       Some \<lparr>DomainName = ''test.com'', Records = [wildRecord]\<rparr>"
proof -
  have fail: "writeBack readOnlyFS = Some (PersistenceError OpenFile)"
    by (simp add: writeBack_def readOnlyFS_def)
  have present: "domainMap readmeStore ''test.com'' = Some testDomain"
    by (simp add: readmeStore_def)
  have name: "DomainName orgDomain \<noteq> []" and org: "DomainName orgDomain = ''example.org''"
    by (simp_all add: orgDomain_def)
  have fresh: "\<not> (\<exists>r \<in> set (Records testDomain). Name r = Name bbbRecord \<and> Type r = Type bbbRecord)"
    by (simp add: testDomain_def aaaRecord_def wildRecord_def bbbRecord_def)
  have split: "Records testDomain = [aaaRecord] @ wildRecord # []"
    by (simp add: testDomain_def)
  have pre: "\<forall>x \<in> set [aaaRecord]. Name x \<noteq> ''*.test.com''"
    by (simp add: aaaRecord_def)
  have wild: "Name wildRecord = ''*.test.com''"
    by (simp add: wildRecord_def)
  have named: "\<exists>r \<in> set (Records testDomain). Name r = ''aaa.test.com''"
    by (simp add: testDomain_def aaaRecord_def)
  have rest: "filter (\<lambda>r. Name r \<noteq> ''aaa.test.com'') (Records testDomain) = [wildRecord]"
    by (simp add: testDomain_def aaaRecord_def wildRecord_def)
  note T = persistence_failure_keeps_change [OF fail, where m = readmeStore
      and domainName = "''test.com''" and d = testDomain and domain = orgDomain
      and added = bbbRecord and pre = "[aaaRecord]" and r = wildRecord and post = "[]"
      and newRecord = bbbRecord]
  show ?thesis
    using T [of "''*.test.com''"] T [of "''aaa.test.com''"]
      present name org fresh split pre wild named rest
    by (simp add: testDomain_def)
qed







text \<open>
  C6 holds but for one case, where the code departs from it.  What holds: the reply to a
  question for a configured name always has the success code, and nothing is forwarded;
  its answer is empty when the lookup finds no record, when the record found is an A
  record whose value is no IP literal or parses to no IPv4 address, and when it is an
  AAAA record whose value is no IP literal.
\<close>

lemma configured_name_no_data:
  assumes "Question req = q # qs" and "IsDomainConfigured conf (QName q)"
  shows "Rcode (fst (HandleRequest parseIP exchange conf req)) = RcodeSuccess"
    and "Rcode (fst (HandleRequest parseIP exchange conf req)) \<noteq> RcodeNameError"
    and "snd (HandleRequest parseIP exchange conf req) = []"
    and "FindRecord conf (QName q) (Qtype q) = None \<Longrightarrow>
         Answer (fst (HandleRequest parseIP exchange conf req)) = []"
    and "FindRecord conf (QName q) (Qtype q) = Some rcd \<Longrightarrow> Type rcd = ''A'' \<Longrightarrow>
         parseIP (Value rcd) = None \<or> (\<exists>ip. parseIP (Value rcd) = Some ip \<and> To4 ip = None) \<Longrightarrow>
         Answer (fst (HandleRequest parseIP exchange conf req)) = []"
    and "FindRecord conf (QName q) (Qtype q) = Some rcd \<Longrightarrow> Type rcd = ''AAAA'' \<Longrightarrow>
         parseIP (Value rcd) = None \<Longrightarrow>
         Answer (fst (HandleRequest parseIP exchange conf req)) = []"
proof -
  note H = handle_configured [OF assms, of parseIP exchange]
  have reply: "Rcode (replyTo req) = RcodeSuccess" "Answer (replyTo req) = []"
    using assms(1) by (simp_all add: replyTo_def SetReply_def newMsg_def Let_def)
  show "Rcode (fst (HandleRequest parseIP exchange conf req)) = RcodeSuccess"
    unfolding H using reply by (simp add: SetRcode_def split: option.splits)
  then show "Rcode (fst (HandleRequest parseIP exchange conf req)) \<noteq> RcodeNameError"
    by (simp add: RcodeSuccess_def RcodeNameError_def)
  show "snd (HandleRequest parseIP exchange conf req) = []"
    unfolding H by (simp split: option.splits)
  have empty: "Answer (SetRcode (replyTo req) req RcodeSuccess) = []"
    using assms(1) by (simp add: SetRcode_def replyTo_def SetReply_def newMsg_def Let_def)
  show "FindRecord conf (QName q) (Qtype q) = None \<Longrightarrow>
         Answer (fst (HandleRequest parseIP exchange conf req)) = []"
    unfolding H using empty by simp
  show "FindRecord conf (QName q) (Qtype q) = Some rcd \<Longrightarrow> Type rcd = ''A'' \<Longrightarrow>
         parseIP (Value rcd) = None \<or> (\<exists>ip. parseIP (Value rcd) = Some ip \<and> To4 ip = None) \<Longrightarrow>
         Answer (fst (HandleRequest parseIP exchange conf req)) = []"
    unfolding H using empty by (auto simp: synthesize_def)
  show "FindRecord conf (QName q) (Qtype q) = Some rcd \<Longrightarrow> Type rcd = ''AAAA'' \<Longrightarrow>
         parseIP (Value rcd) = None \<Longrightarrow>
         Answer (fst (HandleRequest parseIP exchange conf req)) = []"
    unfolding H using empty by (auto simp: synthesize_def)
qed

text \<open>
  The case where the code departs from C6: the check on an AAAA record's address is
  \<^verbatim>\<open>To16\<close>, which is never nil on a parsed address, where the A record's check is
  \<^verbatim>\<open>To4\<close>.  So every literal that parses is answered from an AAAA record, an IPv4
  literal too, as its IPv4-mapped address.
\<close>

lemma AAAA_value_of_any_family:
  assumes "Question req = q # qs" and "IsDomainConfigured conf (QName q)"
    and "FindRecord conf (QName q) (Qtype q) = Some rcd" and "Type rcd = ''AAAA''"
    and "Qtype q = TypeAAAA" and "parseIP (Value rcd) = Some ip" and "length ip = 16"
  shows "Answer (fst (HandleRequest parseIP exchange conf req)) =
           [dns_AAAA (answerHeader (QName q) TypeAAAA rcd) ip]"
  unfolding handle_configured [OF assms(1,2), of parseIP exchange]
  using assms(3-7) by (simp add: synthesize_def To16_def)

text \<open>
  C6, at the input where the code departs from it: the only record of the name
  \<^verbatim>\<open>v6.test.com\<close> is an AAAA record whose value is the IPv4 literal
  \<^verbatim>\<open>10.0.0.1\<close>.  The name is configured, the lookup for type AAAA finds the record, its
  value parses to an IPv4 address, and the reply is not empty: it carries an AAAA record
  with the IPv4-mapped address.
\<close>

theorem AAAA_record_with_IPv4_value:
  "IsDomainConfigured mappedConf ''v6.test.com''
   \<and> FindRecord mappedConf ''v6.test.com'' TypeAAAA = Some sixRecord
   \<and> exampleParseIP (Value sixRecord) = Some (v4InV6Prefix @ [10, 0, 0, 1])
   \<and> To4 (v4InV6Prefix @ [10, 0, 0, 1]) = Some [10, 0, 0, 1]
   \<and> Answer (fst (HandleRequest exampleParseIP timeoutExchange mappedConf
                    (query ''v6.test.com'' TypeAAAA))) =
       [dns_AAAA \<lparr>HdrName = ''v6.test.com'', Rrtype = TypeAAAA, Class = ClassINET, Ttl = 300\<rparr>
          [0, 0, 0, 0, 0, 0, 0, 0, 0, 0, 0xff, 0xff, 10, 0, 0, 1]]"
proof -
  have a: "IsDomainConfigured mappedConf ''v6.test.com''"
    by code_simp
  have b: "FindRecord mappedConf ''v6.test.com'' TypeAAAA = Some sixRecord"
    by code_simp
  have c: "exampleParseIP (Value sixRecord) = Some (v4InV6Prefix @ [10, 0, 0, 1])"
    by (simp add: exampleParseIP_def sixRecord_def)
  have d: "To4 (v4InV6Prefix @ [10, 0, 0, 1]) = Some [10, 0, 0, 1]"
    by (simp add: To4_def v4InV6Prefix_def)
  have e: "Answer (fst (HandleRequest exampleParseIP timeoutExchange mappedConf
                    (query ''v6.test.com'' TypeAAAA))) =
       [dns_AAAA \<lparr>HdrName = ''v6.test.com'', Rrtype = TypeAAAA, Class = ClassINET, Ttl = 300\<rparr>
          [0, 0, 0, 0, 0, 0, 0, 0, 0, 0, 0xff, 0xff, 10, 0, 0, 1]]"
    by code_simp
  show ?thesis
    using a b c d e by simp
qed

text \<open>
  C8 holds as long as the position \<open>page * pageSize\<close> fits Go's \<^verbatim>\<open>int\<close>.  With the
  page clamped to at least 1 and the page size replaced by 20 outside \<open>[1, 100]\<close>, the
  result is the total number of domains and the positions
  \<open>[(page - 1) * pageSize, min(total, page * pageSize))\<close> of the domains sorted
  case-insensitively by name, which is the empty list when the first position is at or
  beyond the end; there is no error.
\<close>

lemma pagination_in_range:
  assumes "isRangeOf rangeOrder m" and "sortsByName sortSlice"
    and "clampPage page * clampPageSize pageSize < 2 ^ 63"
    and "length rangeOrder < 2 ^ 63"
  shows "\<exists>sorted. mset sorted = mset (map domainInfoOf rangeOrder)
          \<and> sorted_wrt (\<lambda>a b. \<not> lessByName b a) sorted
          \<and> ListDomainsWithPagination sortSlice rangeOrder m page pageSize =
              Inr (\<lparr>Total = of_nat (length rangeOrder),
                    ListedDomains =
                      take (nat (clampPageSize pageSize))
                        (drop (nat ((clampPage page - 1) * clampPageSize pageSize)) sorted)\<rparr>,
                   None)"
proof -
  define infos where "infos = sortSlice lessByName (map domainInfoOf rangeOrder)"
  define P :: "64 word" where "P = (if page <s 1 then 1 else page)"
  define S :: "64 word" where "S = (if pageSize <s 1 \<or> 100 <s pageSize then 20 else pageSize)"
  define cp where "cp = clampPage page"
  define cs where "cs = clampPageSize pageSize"
  define n where "n = length rangeOrder"
  have ms: "mset infos = mset (map domainInfoOf rangeOrder)"
    and so: "sorted_wrt (\<lambda>a b. \<not> lessByName b a) infos"
    using assms(2) by (simp_all add: sortsByName_def infos_def)
  have len: "length infos = n"
    using mset_eq_length [OF ms] by (simp add: n_def)
  have P: "sint P = cp" and S: "sint S = cs"
    by (simp_all add: P_def S_def cp_def cs_def clamp_words)
  have b: "1 \<le> cp" "1 \<le> cs" "cs \<le> 100"
    by (simp_all add: cp_def cs_def clamp_bounds)
  have prod: "cp * cs < 2 ^ 63"
    using assms(3) by (simp add: cp_def cs_def)
  have st0: "0 \<le> (cp - 1) * cs"
    using b by simp
  have st1: "(cp - 1) * cs + cs = cp * cs"
    by (simp add: algebra_simps)
  have st2: "(cp - 1) * cs < 2 ^ 63"
    using prod st1 b by linarith
  have P1: "sint (P - 1) = cp - 1"
    using sint_pred64 [of P] b P by simp
  have pos: "0 \<le> cp * cs"
    using b by simp
  have tot: "card (dom (domainMap m)) = n"
    using card_dom_range [OF assms(1)] by (simp add: n_def)
  define len :: "64 word" where "len = of_nat (length infos)"
  define start where "start = (P - 1) * S"
  define endIdx where "endIdx = start + S"
  have unf: "ListDomainsWithPagination sortSlice rangeOrder m page pageSize =
      (if len \<le>s start
       then Inr (\<lparr>Total = of_nat (card (dom (domainMap m))), ListedDomains = []\<rparr>, None)
       else if 0 \<le>s start \<and> start \<le>s (if len <s endIdx then len else endIdx)
                 \<and> (if len <s endIdx then len else endIdx) \<le>s len
            then Inr (\<lparr>Total = of_nat (card (dom (domainMap m))),
                        ListedDomains =
                          take (unat (if len <s endIdx then len else endIdx) - unat start)
                            (drop (unat start) infos)\<rparr>, None)
            else Inl SliceBoundsOutOfRange)"
    unfolding ListDomainsWithPagination_def Let_def domainInfoOf_lambda infos_def P_def S_def
      len_def start_def endIdx_def
    by (rule refl)
  have lenw: "sint len = int n"
    using sint_of_nat64 [of n] assms(4) by (simp add: len_def len n_def)
  have ulen: "unat len = n"
    using unat_sint64 [of len] lenw by simp
  have start: "sint start = (cp - 1) * cs"
    using sint_mult64 [of "P - 1" S] P1 S st0 st2 by (simp add: start_def)
  have endI: "sint endIdx = cp * cs"
    using sint_add64 [of start S] start S st1 prod pos by (simp add: endIdx_def)
  have ustart: "unat start = nat ((cp - 1) * cs)"
    using unat_sint64 [of start] start st0 by simp
  have uend: "unat endIdx = nat (cp * cs)"
    using unat_sint64 [of endIdx] endI pos by simp
  have z: "sint (0 :: 64 word) = 0"
    by simp
  have res: "ListDomainsWithPagination sortSlice rangeOrder m page pageSize =
      Inr (\<lparr>Total = of_nat n,
            ListedDomains = take (nat cs) (drop (nat ((cp - 1) * cs)) infos)\<rparr>, None)"
  proof (cases "int n \<le> (cp - 1) * cs")
    case True
    then have "n \<le> nat ((cp - 1) * cs)" by linarith
    then have "drop (nat ((cp - 1) * cs)) infos = []"
      using len by simp
    then show ?thesis
      unfolding unf using True by (simp add: word_sle_eq start lenw tot)
  next
    case False
    show ?thesis
    proof (cases "int n < cp * cs")
      case True
      have "length (drop (nat ((cp - 1) * cs)) infos) \<le> nat cs"
        using True len st1 b by simp
      then have t: "take (nat cs) (drop (nat ((cp - 1) * cs)) infos) =
          drop (nat ((cp - 1) * cs)) infos"
        by simp
      have "length (drop (nat ((cp - 1) * cs)) infos) \<le> n - nat ((cp - 1) * cs)"
        using len by simp
      then have t2: "take (n - nat ((cp - 1) * cs)) (drop (nat ((cp - 1) * cs)) infos) =
          drop (nat ((cp - 1) * cs)) infos"
        by simp
      show ?thesis
        unfolding unf using False True st0
        by (simp add: word_sle_eq word_sless_alt start endI lenw tot ustart ulen t t2 z)
    next
      case ge: False
      have d: "nat (cp * cs) - nat ((cp - 1) * cs) = nat cs"
        using st1 st0 b by linarith
      have le: "(cp - 1) * cs \<le> cp * cs"
        using st1 b by linarith
      show ?thesis
        unfolding unf using False ge st0 le
        by (simp add: word_sle_eq word_sless_alt start endI lenw tot ustart uend d z)
    qed
  qed
  show ?thesis
    using ms so res by (auto simp: n_def cp_def cs_def)
qed

text \<open>
  C8 fails where \<open>(page - 1) * pageSize\<close> overflows the 64 bits of \<^verbatim>\<open>int\<close>.  For
  page \<open>2 ^ 58 + 1\<close> and page size 64 the first position is \<open>2 ^ 64\<close>, far beyond
  the two domains of the store, and the product wraps to 0: the first page is returned,
  not the empty list.  For page \<open>2 ^ 62 + 1\<close> and page size 2 the product wraps to
  \<open>- 2 ^ 63\<close>, which passes the test for the end, and the slice expression panics.
\<close>

theorem pagination_overflow:
  "isRangeOf twoRange twoStore
   \<and> (clampPage 288230376151711745 - 1) * clampPageSize 64 = 2 ^ 64
   \<and> ListDomainsWithPagination insertionSort twoRange twoStore 288230376151711745 64 =
       Inr (\<lparr>Total = 2,
             ListedDomains = [\<lparr>InfoName = ''example.org'', RecordCount = 1\<rparr>,
                              \<lparr>InfoName = ''test.com'', RecordCount = 2\<rparr>]\<rparr>, None)
   \<and> (clampPage 4611686018427387905 - 1) * clampPageSize 2 = 2 ^ 63
   \<and> ListDomainsWithPagination insertionSort twoRange twoStore 4611686018427387905 2 =
       Inl SliceBoundsOutOfRange"
proof -
  have r: "isRangeOf twoRange twoStore"
    by (simp add: isRangeOf_def twoRange_def twoStore_def fun_eq_iff)
  have total: "card (dom (domainMap twoStore)) = 2"
    by (simp add: twoStore_def)
  have sorted: "insertionSort lessByName
      (map (\<lambda>(name, domain).
              \<lparr>InfoName = name, RecordCount = of_nat (length (Records domain))\<rparr>) twoRange) =
      [\<lparr>InfoName = ''example.org'', RecordCount = 1\<rparr>,
       \<lparr>InfoName = ''test.com'', RecordCount = 2\<rparr>]"
    by code_simp
  have a: "(clampPage 288230376151711745 - 1) * clampPageSize 64 = 2 ^ 64"
    by (simp add: clampPage_def clampPageSize_def)
  have b: "(clampPage 4611686018427387905 - 1) * clampPageSize 2 = 2 ^ 63"
    by (simp add: clampPage_def clampPageSize_def)
  have c: "ListDomainsWithPagination insertionSort twoRange twoStore 288230376151711745 64 =
       Inr (\<lparr>Total = 2,
             ListedDomains = [\<lparr>InfoName = ''example.org'', RecordCount = 1\<rparr>,
                              \<lparr>InfoName = ''test.com'', RecordCount = 2\<rparr>]\<rparr>, None)"
    by (simp add: ListDomainsWithPagination_def Let_def total sorted word_sless_alt word_sle_eq)
  have d: "ListDomainsWithPagination insertionSort twoRange twoStore 4611686018427387905 2 =
       Inl SliceBoundsOutOfRange"
    by (simp add: ListDomainsWithPagination_def Let_def total sorted word_sless_alt word_sle_eq)
  show ?thesis
    using r a b c d by (intro conjI)
qed

text \<open>
  The specification's example of the pagination, on the store of two domains: page 1 of
  size 10 lists both domains in order, page 2 is empty.
\<close>

lemma pagination_example:
  "\<exists>sorted. mset sorted = mset (map domainInfoOf twoRange)
      \<and> sorted_wrt (\<lambda>a b. \<not> lessByName b a) sorted
      \<and> ListDomainsWithPagination insertionSort twoRange twoStore 2 10 =
          Inr (\<lparr>Total = 2, ListedDomains = take 10 (drop 10 sorted)\<rparr>, None)"
proof -
  have r: "isRangeOf twoRange twoStore"
    by (simp add: isRangeOf_def twoRange_def twoStore_def fun_eq_iff)
  have p: "clampPage 2 * clampPageSize 10 < 2 ^ 63"
    by (simp add: clampPage_def clampPageSize_def)
  have l: "length twoRange < 2 ^ 63"
    by (simp add: twoRange_def)
  show ?thesis
    using pagination_in_range [OF r sortsByName_insertionSort p l]
    by (simp add: clampPage_def clampPageSize_def twoRange_def)
qed

end
